theory Spec2Isabelle
  imports Main
begin

section \<open>The host: the page, JavaScript values, \<^verbatim>\<open>String(...)\<close> and \<^verbatim>\<open>new Function(...)\<close>\<close>

text \<open>
  \<^verbatim>\<open>src/components/code-playground.tsx\<close> hands the editor's text to two primitives of the
  JavaScript host, \<^verbatim>\<open>new Function(code)()\<close> and \<^verbatim>\<open>String(...)\<close>, and its copy handler
  uses \<^verbatim>\<open>navigator.clipboard\<close>.

  The ambient state of the page, which executed code can reach: the lines written to the
  real console, the markup of the document's body, and the clipboard. \<open>clipboard\<close> is
  \<open>None\<close> on a page whose \<^verbatim>\<open>navigator.clipboard\<close> is \<^verbatim>\<open>undefined\<close> (a page that is not served
  from a secure origin), and the text on the clipboard otherwise.
\<close>

record ambient =
  console :: "string list"
  document_body :: string
  clipboard :: "string option"

text \<open>
  The integral Numbers that \<^verbatim>\<open>String\<close> prints as their decimal digits: the safe integers,
  of magnitude below \<open>2 ^ 53\<close>.
\<close>

typedef safe_integer = "{n::int. - (2 ^ 53) < n \<and> n < 2 ^ 53}"
  by (rule exI [of _ 0]) simp

setup_lifting type_definition_safe_integer

lift_definition safe_4 :: safe_integer is 4
  by simp

text \<open>
  The fragment of JavaScript values the development needs: the primitives, \<^verbatim>\<open>Error\<close>
  objects with the built-in conversion (their \<^verbatim>\<open>name\<close> and \<^verbatim>\<open>message\<close>), the object without
  prototype made by \<^verbatim>\<open>Object.create(null)\<close>, and an object with a conversion of its own
  (its \<^verbatim>\<open>toString\<close>, \<^verbatim>\<open>valueOf\<close> or \<^verbatim>\<open>Symbol.toPrimitive\<close>): what \<^verbatim>\<open>String\<close> does on
  such an object is to run that code on the page, which may change the page, return any
  text, throw, or never return (\<open>None\<close>).
\<close>

datatype js_value =
    Undefined
  | Null
  | Boolean bool
  | Number safe_integer
  | Str string
  | ErrorObject string string
  | BareObject
  | Object "ambient \<Rightarrow> ((js_value + string) \<times> ambient) option"

fun decimal :: "nat \<Rightarrow> string" where
  "decimal n =
     (if n < 10 then [''0123456789'' ! n]
      else decimal (n div 10) @ [''0123456789'' ! (n mod 10)])"

declare decimal.simps [simp del]

definition integer_toString :: "int \<Rightarrow> string" where
  "integer_toString n = (if n < 0 then ''-'' @ decimal (nat (- n)) else decimal (nat n))"

text \<open>
  \<^verbatim>\<open>Error.prototype.toString\<close>: the name alone when the message is empty, the message alone
  when the name is empty, and \<^verbatim>\<open>name + ": " + message\<close> otherwise.
\<close>

definition error_toString :: "string \<Rightarrow> string \<Rightarrow> string" where
  "error_toString name msg =
     (if name = [] then msg else if msg = [] then name else name @ '': '' @ msg)"

text \<open>
  \<^verbatim>\<open>String(v)\<close> on the page \<open>g\<close>: it returns a string (\<open>Inr\<close>) or throws (\<open>Inl\<close>, the thrown
  value) and leaves the page as the conversion changed it, or it never returns (\<open>None\<close>).
  The built-in conversions do not touch the page. An object without prototype has no
  \<^verbatim>\<open>toString\<close>, so converting it throws a \<^verbatim>\<open>TypeError\<close> (whose message is the one V8
  gives).
\<close>

definition js_String :: "js_value \<Rightarrow> ambient \<Rightarrow> ((js_value + string) \<times> ambient) option" where
  "js_String v g =
     (case v of
        Undefined \<Rightarrow> Some (Inr ''undefined'', g)
      | Null \<Rightarrow> Some (Inr ''null'', g)
      | Boolean b \<Rightarrow> Some (Inr (if b then ''true'' else ''false''), g)
      | Number n \<Rightarrow> Some (Inr (integer_toString (Rep_safe_integer n)), g)
      | Str s \<Rightarrow> Some (Inr s, g)
      | ErrorObject name msg \<Rightarrow> Some (Inr (error_toString name msg), g)
      | BareObject \<Rightarrow>
          Some (Inl (ErrorObject ''TypeError'' ''Cannot convert object to primitive value''), g)
      | Object convert \<Rightarrow> convert g)"

text \<open>
  A call of a function either returns a value or throws one, and leaves the page as the
  body changed it; a call that never returns is \<open>None\<close>.
\<close>

datatype js_completion = Normal js_value | Throw js_value

type_synonym js_function = "ambient \<Rightarrow> (js_completion \<times> ambient) option"

text \<open>
  \<^verbatim>\<open>new Function(body)\<close> either throws (a \<^verbatim>\<open>SyntaxError\<close> for a body that does not parse)
  or yields a function object. The engine is a parameter of the component's model.
\<close>

type_synonym js_engine = "string \<Rightarrow> js_value + js_function"

section \<open>The component \<^verbatim>\<open>CodePlayground\<close>\<close>

datatype toast = ToastSuccess string | ToastError string

text \<open>
  \<open>code\<close> is the constant that the last render of the component bound with
  \<^verbatim>\<open>const [code, setCode] = useState(initialCode)\<close>: it is what the handlers made by that
  render, \<^verbatim>\<open>runCode\<close> and \<^verbatim>\<open>copyCode\<close>, read. \<open>code_state\<close> is the state behind it, the value
  of the latest \<^verbatim>\<open>setCode\<close>, which the next render binds. \<open>output\<close> is the state set by
  \<^verbatim>\<open>setOutput\<close>; no handler reads it. With them go what the handlers act on outside of the
  component: the notifications shown so far and the page.
\<close>

record playground =
  code :: string
  code_state :: string
  "output" :: string
  toasts :: "toast list"
  globals :: ambient

text \<open>The first render: \<^verbatim>\<open>useState(initialCode)\<close> and \<^verbatim>\<open>useState("")\<close>.\<close>

definition CodePlayground :: "string \<Rightarrow> ambient \<Rightarrow> playground" where
  "CodePlayground initialCode g =
     \<lparr>code = initialCode, code_state = initialCode, output = [], toasts = [], globals = g\<rparr>"

text \<open>A later render: the component function runs again and binds the current state.\<close>

definition render :: "playground \<Rightarrow> playground" where
  "render st = st\<lparr>code := code_state st\<rparr>"

text \<open>
  What a handler does to its caller: it returns, or an exception leaves it uncaught (with
  the state as it was when the exception left), or it never returns (\<open>None\<close>).
\<close>

datatype handler_result = Returns playground | Escapes js_value playground

fun state_of :: "handler_result \<Rightarrow> playground" where
  "state_of (Returns st) = st"
| "state_of (Escapes e st) = st"

fun map_result :: "(playground \<Rightarrow> playground) \<Rightarrow> handler_result \<Rightarrow> handler_result" where
  "map_result u (Returns st) = Returns (u st)"
| "map_result u (Escapes e st) = Escapes e (u st)"

text \<open>
  The \<^verbatim>\<open>catch (error)\<close> block of \<^verbatim>\<open>runCode\<close>:
  \<^verbatim>\<open>setOutput(String(error)); toast.error("Error executing code");\<close>
\<close>

definition runCode_catch :: "playground \<Rightarrow> js_value \<Rightarrow> handler_result option" where
  "runCode_catch st error =
     (case js_String error (globals st) of
        None \<Rightarrow> None
      | Some (Inl e, g) \<Rightarrow> Some (Escapes e (st\<lparr>globals := g\<rparr>))
      | Some (Inr s, g) \<Rightarrow>
          Some (Returns (st\<lparr>globals := g, output := s,
            toasts := toasts st @ [ToastError ''Error executing code'']\<rparr>)))"

text \<open>
  \<^verbatim>\<open>runCode\<close>:
  \<^verbatim>\<open>try { const result = new Function(code)(); setOutput(String(result));
        toast.success("Code executed successfully!"); } catch (error) { ... }\<close>
\<close>

definition runCode :: "js_engine \<Rightarrow> playground \<Rightarrow> handler_result option" where
  "runCode engine st =
     (case engine (code st) of
        Inl error \<Rightarrow> runCode_catch st error
      | Inr f \<Rightarrow>
          (case f (globals st) of
             None \<Rightarrow> None
           | Some (Throw error, g) \<Rightarrow> runCode_catch (st\<lparr>globals := g\<rparr>) error
           | Some (Normal result, g) \<Rightarrow>
               (case js_String result g of
                  None \<Rightarrow> None
                | Some (Inl error, g') \<Rightarrow> runCode_catch (st\<lparr>globals := g'\<rparr>) error
                | Some (Inr s, g') \<Rightarrow>
                    Some (Returns (st\<lparr>globals := g', output := s,
                      toasts := toasts st @ [ToastSuccess ''Code executed successfully!'']\<rparr>)))))"

text \<open>
  \<^verbatim>\<open>copyCode\<close>: \<^verbatim>\<open>navigator.clipboard.writeText(code); toast.success("Code copied to clipboard!");\<close>
  Where \<^verbatim>\<open>navigator.clipboard\<close> is \<^verbatim>\<open>undefined\<close> the member access throws a \<^verbatim>\<open>TypeError\<close> (with
  V8's message) before the notification. Otherwise \<^verbatim>\<open>writeText\<close> returns a promise, which
  the handler drops; \<open>granted\<close> says whether that promise is fulfilled (the text is on the
  clipboard) or rejected (the clipboard is as before).
\<close>

definition writeText :: "bool \<Rightarrow> string \<Rightarrow> ambient \<Rightarrow> ambient" where
  "writeText granted t g = (if granted then g\<lparr>clipboard := Some t\<rparr> else g)"

definition copyCode :: "bool \<Rightarrow> playground \<Rightarrow> handler_result" where
  "copyCode granted st =
     (case clipboard (globals st) of
        None \<Rightarrow>
          Escapes (ErrorObject ''TypeError''
            ''Cannot read properties of undefined (reading 'writeText')'') st
      | Some held \<Rightarrow>
          (let st1 = st\<lparr>globals := writeText granted (code st) (globals st)\<rparr>
           in Returns (st1\<lparr>toasts := toasts st1 @ [ToastSuccess ''Code copied to clipboard!'']\<rparr>)))"

text \<open>
  The editor's \<^verbatim>\<open>onChange={(value) => setCode(value || "")}\<close>, where \<^verbatim>\<open>value\<close> is a string
  or \<^verbatim>\<open>undefined\<close>: a falsy value (\<^verbatim>\<open>undefined\<close> or the empty string) gives \<^verbatim>\<open>""\<close>. \<^verbatim>\<open>setCode\<close>
  sets the state; the handlers of the last render keep the \<open>code\<close> they were made with.
\<close>

definition onChange :: "string option \<Rightarrow> playground \<Rightarrow> playground" where
  "onChange v st =
     st\<lparr>code_state := (case v of None \<Rightarrow> [] | Some x \<Rightarrow> if x = [] then [] else x)\<rparr>"

text \<open>
  The output panel, \<^verbatim>\<open>{output && (<div ...>{output}</div>)}\<close>: rendered with the text when
  \<open>output\<close> is truthy (a non-empty string), absent otherwise.
\<close>

definition output_panel :: "playground \<Rightarrow> string option" where
  "output_panel st = (if output st \<noteq> [] then Some (output st) else None)"

section \<open>A concrete engine\<close>

text \<open>
  \<^verbatim>\<open>while (c) {}\<close> (or \<^verbatim>\<open>for (; c; ) {}\<close>) with a constant condition and an empty body, as the
  last statement of a function body: it runs for ever when \<open>c\<close> holds, and falls off the
  end of the body (returning \<^verbatim>\<open>undefined\<close>) otherwise.
\<close>

partial_function (option) js_while :: "bool \<Rightarrow> ambient \<Rightarrow> (js_completion \<times> ambient) option" where
  "js_while c g = (if c then js_while c g else Some (Normal Undefined, g))"

declare js_while.simps [code]

text \<open>\<^verbatim>\<open>console.log(s)\<close> on the page's own console.\<close>

definition console_log :: "string \<Rightarrow> ambient \<Rightarrow> ambient" where
  "console_log s g = g\<lparr>console := console g @ [s]\<rparr>"

text \<open>
  The conversion of the object \<^verbatim>\<open>{toString(){for(;;){}}}\<close>: \<^verbatim>\<open>String\<close> calls its \<^verbatim>\<open>toString\<close>,
  whose body is the loop; were the loop to end, the method would return \<^verbatim>\<open>undefined\<close>.
\<close>

definition looping_toString :: "ambient \<Rightarrow> ((js_value + string) \<times> ambient) option" where
  "looping_toString g =
     (case js_while True g of None \<Rightarrow> None | Some (c, g') \<Rightarrow> Some (Inr ''undefined'', g'))"

text \<open>
  What ECMAScript prescribes for \<^verbatim>\<open>new Function(body)\<close> on a handful of bodies. Every other
  body is outside this fragment, and this engine refuses it when the function is
  constructed.
\<close>

definition ecma_Function :: js_engine where
  "ecma_Function body =
     (if body = [] then Inr (\<lambda>g. Some (Normal Undefined, g))
      else if body = ''return 2 + 2;'' then Inr (\<lambda>g. Some (Normal (Number safe_4), g))
      else if body = ''return '' @ [CHR 0x27, CHR 0x27] @ '';''
        then Inr (\<lambda>g. Some (Normal (Str []), g))
      else if body = ''throw new Error('bad');''
        then Inr (\<lambda>g. Some (Throw (ErrorObject ''Error'' ''bad''), g))
      else if body = ''throw Object.create(null);'' then Inr (\<lambda>g. Some (Throw BareObject, g))
      else if body = ''return Object.create(null);'' then Inr (\<lambda>g. Some (Normal BareObject, g))
      else if body = ''return {toString(){for(;;){}}};''
        then Inr (\<lambda>g. Some (Normal (Object looping_toString), g))
      else if body = ''console.log(1);'' then Inr (\<lambda>g. Some (Normal Undefined, console_log ''1'' g))
      else if body = ''document.body.innerHTML = 'x';''
        then Inr (\<lambda>g. Some (Normal Undefined, g\<lparr>document_body := ''x''\<rparr>))
      else if body = ''while(true){}'' then Inr (js_while True)
      else Inl (ErrorObject ''SyntaxError'' ''unsupported source''))"

text \<open>
  A page served from a secure origin on which nothing has been logged or copied yet, and
  the same page served over plain HTTP, where \<^verbatim>\<open>navigator.clipboard\<close> is \<^verbatim>\<open>undefined\<close>.
\<close>

definition fresh_page :: ambient where
  "fresh_page = \<lparr>console = [], document_body = ''<main></main>'', clipboard = Some []\<rparr>"

definition plain_http_page :: ambient where
  "plain_http_page = \<lparr>console = [], document_body = ''<main></main>'', clipboard = None\<rparr>"

section \<open>Properties of the engine and of \<^verbatim>\<open>String\<close>\<close>

lemma js_while_Some:
  assumes "js_while c g = Some r"
  shows "\<not> c"
proof (rule js_while.raw_induct [where P = "\<lambda>c g r. \<not> c", OF _ assms])
  fix w :: "bool \<Rightarrow> ambient \<Rightarrow> (js_completion \<times> ambient) option"
  fix c g r
  assume IH: "\<And>c g r. w c g = Some r \<Longrightarrow> \<not> c"
    and unfolded: "(if c then w c g else Some (Normal Undefined, g)) = Some r"
  show "\<not> c"
  proof
    assume c
    with unfolded have "w c g = Some r" by simp
    from IH [OF this] \<open>c\<close> show False by simp
  qed
qed

lemma js_while_True: "js_while True g = None"
  using js_while_Some [of True g] by (cases "js_while True g") auto

lemma looping_toString_None: "looping_toString g = None"
  by (simp add: looping_toString_def js_while_True)

lemma js_String_ErrorObject:
  "name \<noteq> [] \<Longrightarrow> msg \<noteq> [] \<Longrightarrow>
   js_String (ErrorObject name msg) g = Some (Inr (name @ '': '' @ msg), g)"
  by (simp add: js_String_def error_toString_def)

lemma js_String_safe_4: "js_String (Number safe_4) g = Some (Inr ''4'', g)"
  by (simp add: js_String_def integer_toString_def safe_4.rep_eq decimal.simps)

text \<open>
  A run started from a state whose \<open>code_state\<close> has been set by an edit that no render has
  bound yet does what the run without that edit does.
\<close>

lemma runCode_catch_onChange:
  "runCode_catch (onChange y st) e = map_option (map_result (onChange y)) (runCode_catch st e)"
  by (simp add: runCode_catch_def onChange_def split: option.splits sum.splits prod.splits)

lemma runCode_catch_globals_onChange:
  "runCode_catch (onChange y st\<lparr>globals := g\<rparr>) e =
   map_option (map_result (onChange y)) (runCode_catch (st\<lparr>globals := g\<rparr>) e)"
  by (simp add: runCode_catch_def onChange_def split: option.splits sum.splits prod.splits)

lemma runCode_onChange:
  "runCode engine (onChange y st) = map_option (map_result (onChange y)) (runCode engine st)"
proof -
  have c: "code (onChange y st) = code st" and g: "globals (onChange y st) = globals st"
    and t: "toasts (onChange y st) = toasts st"
    by (simp_all add: onChange_def)
  show ?thesis
    unfolding runCode_def c g t
    by (simp add: runCode_catch_onChange runCode_catch_globals_onChange
        split: option.splits sum.splits prod.splits js_completion.splits)
      (simp add: onChange_def)
qed

section \<open>The claims\<close>

subsection \<open>C1: no timeout\<close>

text \<open>
  C1 asks that a source running longer than the timeout budget yields a timed-out outcome
  instead of hanging the caller. \<^verbatim>\<open>runCode\<close> has no budget and no worker: it calls the
  constructed function on the spot. On \<^verbatim>\<open>while(true){}\<close> the handler never returns, so
  nothing is displayed at all.
\<close>

theorem runCode_hangs_counterexample:
  "runCode ecma_Function (CodePlayground ''while(true){}'' fresh_page) = None"
  by (simp add: runCode_def ecma_Function_def CodePlayground_def js_while_True)

text \<open>
  C1, as the code has it: \<^verbatim>\<open>runCode\<close> compiles the source, calls the function and converts
  the result (or the caught error) with \<^verbatim>\<open>String\<close>, all synchronously and without a budget;
  it fails to return exactly when the call or one of these conversions never returns. So
  for a source whose execution never completes \<^verbatim>\<open>runCode\<close> never returns: there is no
  timed-out outcome.
\<close>

theorem runCode_hangs_iff:
  "runCode engine st = None \<longleftrightarrow>
     (\<exists>e. engine (code st) = Inl e \<and> js_String e (globals st) = None)
   \<or> (\<exists>f. engine (code st) = Inr f
        \<and> (f (globals st) = None
            \<or> (\<exists>e g. f (globals st) = Some (Throw e, g) \<and> js_String e g = None)
            \<or> (\<exists>v g. f (globals st) = Some (Normal v, g)
                  \<and> (js_String v g = None
                      \<or> (\<exists>e g'. js_String v g = Some (Inl e, g') \<and> js_String e g' = None)))))"
  by (auto simp: runCode_def runCode_catch_def
      split: sum.splits option.splits js_completion.splits prod.splits)

theorem runCode_hangs_iff_witness:
  "runCode ecma_Function (CodePlayground ''while(true){}'' fresh_page) = None
   \<and> runCode ecma_Function (CodePlayground ''return {toString(){for(;;){}}};'' fresh_page) = None
   \<and> runCode ecma_Function (CodePlayground ''return 2 + 2;'' fresh_page) \<noteq> None"
  using runCode_hangs_iff [of ecma_Function "CodePlayground ''while(true){}'' fresh_page"]
    runCode_hangs_iff [of ecma_Function "CodePlayground ''return {toString(){for(;;){}}};'' fresh_page"]
    runCode_hangs_iff [of ecma_Function "CodePlayground ''return 2 + 2;'' fresh_page"]
  by (simp add: ecma_Function_def CodePlayground_def js_while_True js_String_def
      looping_toString_None)

subsection \<open>C2: exceptions at the boundary of \<^verbatim>\<open>runCode\<close>\<close>

text \<open>
  C2 says that every exception thrown while compiling or executing the source is caught
  and turned into a reported outcome, and that none leaves \<^verbatim>\<open>runCode\<close>. The \<^verbatim>\<open>try\<close> block
  does catch the thrown value, but the \<^verbatim>\<open>catch\<close> block converts it with \<^verbatim>\<open>String(error)\<close>,
  which throws in turn for a value without \<^verbatim>\<open>toString\<close>: on
  \<^verbatim>\<open>throw Object.create(null);\<close> a \<^verbatim>\<open>TypeError\<close> leaves \<^verbatim>\<open>runCode\<close> uncaught, the output is
  not set and no notification is shown.
\<close>

theorem runCode_uncaught_TypeError:
  "runCode ecma_Function (CodePlayground ''throw Object.create(null);'' fresh_page) =
     Some (Escapes (ErrorObject ''TypeError'' ''Cannot convert object to primitive value'')
       (CodePlayground ''throw Object.create(null);'' fresh_page))"
  by (simp add: runCode_def runCode_catch_def ecma_Function_def CodePlayground_def js_String_def
      fresh_page_def)

subsection \<open>C3: the empty source\<close>

text \<open>
  C3 says that the empty source is reported as the syntax error \<^verbatim>\<open>empty source\<close> without
  being executed. \<^verbatim>\<open>runCode\<close> has no such guard: the empty body compiles, its call returns
  \<^verbatim>\<open>undefined\<close>, and the run is reported as a success with the text \<^verbatim>\<open>undefined\<close>.
\<close>

theorem runCode_empty_source_counterexample:
  "runCode ecma_Function (CodePlayground [] fresh_page) =
     Some (Returns \<lparr>code = [], code_state = [], output = ''undefined'',
       toasts = [ToastSuccess ''Code executed successfully!''], globals = fresh_page\<rparr>)
   \<and> ''undefined'' \<noteq> ''SyntaxError: empty source''"
  by (simp add: runCode_def ecma_Function_def CodePlayground_def js_String_def)

text \<open>
  C3, as the code has it: the empty source is compiled and called like any other; with an
  engine that accepts the empty body as a function returning \<^verbatim>\<open>undefined\<close> and touching
  nothing, the run sets the output to \<^verbatim>\<open>undefined\<close> and shows the success notification.
\<close>

theorem runCode_empty_source:
  assumes "code st = []"
    and "engine [] = Inr f"
    and "f (globals st) = Some (Normal Undefined, globals st)"
  shows "runCode engine st =
    Some (Returns (st\<lparr>output := ''undefined'',
      toasts := toasts st @ [ToastSuccess ''Code executed successfully!'']\<rparr>))"
  using assms by (simp add: runCode_def js_String_def)

theorem runCode_empty_source_witness:
  "code (CodePlayground [] fresh_page) = []
   \<and> ecma_Function [] = Inr (\<lambda>g. Some (Normal Undefined, g))
   \<and> runCode ecma_Function (CodePlayground [] fresh_page) =
     Some (Returns ((CodePlayground [] fresh_page)\<lparr>output := ''undefined'',
       toasts := [ToastSuccess ''Code executed successfully!'']\<rparr>))"
  using runCode_empty_source [of "CodePlayground [] fresh_page" ecma_Function
      "\<lambda>g. Some (Normal Undefined, g)"]
  by (simp add: ecma_Function_def CodePlayground_def)

subsection \<open>C4: the text of an error\<close>

text \<open>
  C4 says that a source that throws is displayed as a kind label (\<^verbatim>\<open>SyntaxError\<close>,
  \<^verbatim>\<open>RuntimeError\<close> or \<^verbatim>\<open>Timeout\<close>), a colon and the message, so that
  \<^verbatim>\<open>throw new Error('bad');\<close> shows \<^verbatim>\<open>RuntimeError: bad\<close>. The code displays
  \<^verbatim>\<open>String(error)\<close>, whose label is the error's own name: the text is \<^verbatim>\<open>Error: bad\<close>.
\<close>

theorem runCode_error_text_counterexample:
  "runCode ecma_Function (CodePlayground ''throw new Error('bad');'' fresh_page) =
     Some (Returns \<lparr>code = ''throw new Error('bad');'', code_state = ''throw new Error('bad');'',
       output = ''Error: bad'',
       toasts = [ToastError ''Error executing code''], globals = fresh_page\<rparr>)
   \<and> ''Error: bad'' \<noteq> ''RuntimeError: bad''"
  by (simp add: runCode_def runCode_catch_def ecma_Function_def CodePlayground_def js_String_def
      error_toString_def)

text \<open>
  C4, as the code has it: when compiling the source or calling the compiled function
  throws an \<^verbatim>\<open>Error\<close> object with a non-empty name and a non-empty message, the run
  returns, the displayed text is the object's name, a colon, a space and its message, and
  the error notification is shown.
\<close>

theorem runCode_error_text:
  assumes "engine (code st) = Inl (ErrorObject name msg)
      \<or> (\<exists>f g. engine (code st) = Inr f \<and> f (globals st) = Some (Throw (ErrorObject name msg), g))"
    and "name \<noteq> []" and "msg \<noteq> []"
  shows "\<exists>st'. runCode engine st = Some (Returns st') \<and> output st' = name @ '': '' @ msg
    \<and> toasts st' = toasts st @ [ToastError ''Error executing code'']"
  using assms(1)
proof
  assume "engine (code st) = Inl (ErrorObject name msg)"
  then show ?thesis
    using assms(2,3) by (simp add: runCode_def runCode_catch_def js_String_ErrorObject)
next
  assume "\<exists>f g. engine (code st) = Inr f \<and> f (globals st) = Some (Throw (ErrorObject name msg), g)"
  then obtain f g where "engine (code st) = Inr f"
    and "f (globals st) = Some (Throw (ErrorObject name msg), g)" by blast
  then show ?thesis
    using assms(2,3) by (simp add: runCode_def runCode_catch_def js_String_ErrorObject)
qed

theorem runCode_error_text_witness:
  "(\<exists>f g. ecma_Function ''throw new Error('bad');'' = Inr f
       \<and> f fresh_page = Some (Throw (ErrorObject ''Error'' ''bad''), g))
   \<and> (\<exists>st'. runCode ecma_Function (CodePlayground ''throw new Error('bad');'' fresh_page)
         = Some (Returns st')
       \<and> output st' = ''Error: bad'' \<and> toasts st' = [ToastError ''Error executing code''])"
proof -
  have thrown: "\<exists>f g. ecma_Function ''throw new Error('bad');'' = Inr f
       \<and> f fresh_page = Some (Throw (ErrorObject ''Error'' ''bad''), g)"
    by (simp add: ecma_Function_def)
  show ?thesis
    using thrown runCode_error_text [of ecma_Function
        "CodePlayground ''throw new Error('bad');'' fresh_page" "''Error''" "''bad''"]
    by (simp add: CodePlayground_def)
qed

subsection \<open>C5: effects on the page\<close>




subsection \<open>C7: the text of a returned value\<close>

text \<open>
  C7 says that every non-empty valid source that terminates with a value is displayed as
  the stringification of that value. The stringification of the code is \<^verbatim>\<open>String(result)\<close>,
  inside the \<^verbatim>\<open>try\<close> block: for a value that \<^verbatim>\<open>String\<close> cannot convert, such as the one
  \<^verbatim>\<open>return Object.create(null);\<close> returns, the conversion throws and the run is reported
  as an error, with the text of the \<^verbatim>\<open>TypeError\<close>.
\<close>

theorem runCode_value_counterexample:
  "runCode ecma_Function (CodePlayground ''return Object.create(null);'' fresh_page) =
     Some (Returns \<lparr>code = ''return Object.create(null);'',
       code_state = ''return Object.create(null);'',
       output = ''TypeError: Cannot convert object to primitive value'',
       toasts = [ToastError ''Error executing code''], globals = fresh_page\<rparr>)
   \<and> js_String BareObject fresh_page =
       Some (Inl (ErrorObject ''TypeError'' ''Cannot convert object to primitive value''), fresh_page)"
  by (simp add: runCode_def runCode_catch_def ecma_Function_def CodePlayground_def js_String_def
      error_toString_def)

text \<open>
  C7, as the code has it: for every non-empty source that compiles and whose call returns
  a value \<open>v\<close> that \<^verbatim>\<open>String\<close> converts to the text \<open>s\<close>, the run returns, the displayed
  text is \<open>s\<close> and the success notification is shown; \<^verbatim>\<open>return 2 + 2;\<close> displays \<^verbatim>\<open>4\<close>.
\<close>

theorem runCode_displays_value:
  assumes "code st \<noteq> []"
    and "engine (code st) = Inr f"
    and "f (globals st) = Some (Normal v, g)"
    and "js_String v g = Some (Inr s, g')"
  shows "\<exists>st'. runCode engine st = Some (Returns st') \<and> output st' = s
    \<and> toasts st' = toasts st @ [ToastSuccess ''Code executed successfully!'']"
  using assms by (simp add: runCode_def)

theorem runCode_displays_value_witness:
  "code (CodePlayground ''return 2 + 2;'' fresh_page) \<noteq> []
   \<and> ecma_Function ''return 2 + 2;'' = Inr (\<lambda>g. Some (Normal (Number safe_4), g))
   \<and> js_String (Number safe_4) fresh_page = Some (Inr ''4'', fresh_page)
   \<and> (\<exists>st'. runCode ecma_Function (CodePlayground ''return 2 + 2;'' fresh_page) = Some (Returns st')
       \<and> output st' = ''4'' \<and> toasts st' = [ToastSuccess ''Code executed successfully!''])"
  using runCode_displays_value [of "CodePlayground ''return 2 + 2;'' fresh_page" ecma_Function
      "\<lambda>g. Some (Normal (Number safe_4), g)" "Number safe_4" fresh_page "''4''" fresh_page]
  by (simp add: ecma_Function_def CodePlayground_def js_String_safe_4)

subsection \<open>C8: one visible outcome\<close>

text \<open>
  C8 says that a completed run always leaves one visible outcome and never a blank
  display. The panel is rendered under \<^verbatim>\<open>output &&\<close>, and the empty string is falsy: after
  \<^verbatim>\<open>return '';\<close> the run has succeeded, the output is the empty text and no panel is shown.
\<close>

theorem runCode_blank_counterexample:
  "runCode ecma_Function (CodePlayground (''return '' @ [CHR 0x27, CHR 0x27] @ '';'') fresh_page) =
     Some (Returns \<lparr>code = ''return '' @ [CHR 0x27, CHR 0x27] @ '';'',
       code_state = ''return '' @ [CHR 0x27, CHR 0x27] @ '';'', output = [],
       toasts = [ToastSuccess ''Code executed successfully!''], globals = fresh_page\<rparr>)
   \<and> output_panel \<lparr>code = ''return '' @ [CHR 0x27, CHR 0x27] @ '';'',
       code_state = ''return '' @ [CHR 0x27, CHR 0x27] @ '';'', output = [],
       toasts = [ToastSuccess ''Code executed successfully!''], globals = fresh_page\<rparr> = None"
  by (simp add: runCode_def ecma_Function_def CodePlayground_def js_String_def output_panel_def)

text \<open>
  C8, as the code has it: a run that returns has set the output to one text and shown one
  notification, either the text of the returned value with the success notification or
  the text of the caught error with the error notification, never both; the panel shows
  that text when it is not empty and is absent when it is empty.
\<close>

theorem runCode_one_outcome:
  assumes "runCode engine st = Some (Returns st')"
  shows "((toasts st' = toasts st @ [ToastSuccess ''Code executed successfully!'']
            \<and> (\<exists>f v g g'. engine (code st) = Inr f \<and> f (globals st) = Some (Normal v, g)
                  \<and> js_String v g = Some (Inr (output st'), g')))
        \<or> (toasts st' = toasts st @ [ToastError ''Error executing code'']
            \<and> (\<exists>e g0 g1. js_String e g0 = Some (Inr (output st'), g1)
                  \<and> ((engine (code st) = Inl e \<and> g0 = globals st)
                      \<or> (\<exists>f. engine (code st) = Inr f
                            \<and> (f (globals st) = Some (Throw e, g0)
                                \<or> (\<exists>v g. f (globals st) = Some (Normal v, g)
                                      \<and> js_String v g = Some (Inl e, g0))))))))
      \<and> \<not> (toasts st' = toasts st @ [ToastSuccess ''Code executed successfully!'']
            \<and> toasts st' = toasts st @ [ToastError ''Error executing code''])
      \<and> output_panel st' = (if output st' = [] then None else Some (output st'))"
  using assms
  by (auto simp: runCode_def runCode_catch_def output_panel_def
      split: sum.splits option.splits js_completion.splits prod.splits)

theorem runCode_one_outcome_witness:
  "runCode ecma_Function (CodePlayground ''return 2 + 2;'' fresh_page) =
     Some (Returns \<lparr>code = ''return 2 + 2;'', code_state = ''return 2 + 2;'', output = ''4'',
       toasts = [ToastSuccess ''Code executed successfully!''], globals = fresh_page\<rparr>)
   \<and> output_panel \<lparr>code = ''return 2 + 2;'', code_state = ''return 2 + 2;'', output = ''4'',
       toasts = [ToastSuccess ''Code executed successfully!''], globals = fresh_page\<rparr> = Some ''4''"
proof -
  have run: "runCode ecma_Function (CodePlayground ''return 2 + 2;'' fresh_page) =
     Some (Returns \<lparr>code = ''return 2 + 2;'', code_state = ''return 2 + 2;'', output = ''4'',
       toasts = [ToastSuccess ''Code executed successfully!''], globals = fresh_page\<rparr>)"
    by (simp add: runCode_def ecma_Function_def CodePlayground_def js_String_safe_4)
  show ?thesis
    using run runCode_one_outcome [OF run] by simp
qed

subsection \<open>C9: editing and running\<close>

text \<open>
  C9 says that after an edit to the text \<open>x\<close> the run that follows always executes \<open>x\<close>.
  \<^verbatim>\<open>setCode\<close> sets the state, but \<^verbatim>\<open>runCode\<close> reads the \<open>code\<close> its render bound: a run
  started after the edit and before the next render executes the text of the last render.
  Here the buffer holds \<^verbatim>\<open>return 2 + 2;\<close> when the run starts, and the run executes the
  empty text the component was rendered with, displaying \<^verbatim>\<open>undefined\<close>.
\<close>

theorem run_before_render_counterexample:
  "runCode ecma_Function (onChange (Some ''return 2 + 2;'') (CodePlayground [] fresh_page)) =
     Some (Returns \<lparr>code = [], code_state = ''return 2 + 2;'', output = ''undefined'',
       toasts = [ToastSuccess ''Code executed successfully!''], globals = fresh_page\<rparr>)
   \<and> code_state (onChange (Some ''return 2 + 2;'') (CodePlayground [] fresh_page)) = ''return 2 + 2;''"
  by (simp add: runCode_def onChange_def ecma_Function_def CodePlayground_def js_String_def)

text \<open>
  C9, as the code has it: for every text \<open>x\<close>, the editor's change handler called with
  \<open>x\<close> sets the state behind the source buffer to \<open>x\<close> and changes nothing else, and the
  next render binds \<open>x\<close>. A run started after that render compiles and calls exactly \<open>x\<close>:
  it never returns when the call of \<open>x\<close> never returns, displays the text of the value
  that the call of \<open>x\<close> returns, with the success notification, and displays the text of
  the value it throws, with the error notification. An edit made after the last render,
  whether before or after the run, changes nothing of what the run does: the run with the
  edit is the run without it, followed by the edit.
\<close>

theorem edit_render_run:
  "onChange (Some x) st = st\<lparr>code_state := x\<rparr>
   \<and> code (render (onChange (Some x) st)) = x
   \<and> (engine x = Inr f \<longrightarrow> f (globals st) = None \<longrightarrow>
        runCode engine (render (onChange (Some x) st)) = None)
   \<and> (engine x = Inr f \<longrightarrow> f (globals st) = Some (Normal v, g) \<longrightarrow>
        js_String v g = Some (Inr s, g') \<longrightarrow>
        runCode engine (render (onChange (Some x) st)) =
          Some (Returns (st\<lparr>code := x, code_state := x, globals := g', output := s,
            toasts := toasts st @ [ToastSuccess ''Code executed successfully!'']\<rparr>)))
   \<and> (engine x = Inr f \<longrightarrow> f (globals st) = Some (Throw e, g) \<longrightarrow>
        js_String e g = Some (Inr s, g') \<longrightarrow>
        runCode engine (render (onChange (Some x) st)) =
          Some (Returns (st\<lparr>code := x, code_state := x, globals := g', output := s,
            toasts := toasts st @ [ToastError ''Error executing code'']\<rparr>)))
   \<and> runCode engine (onChange y st) = map_option (map_result (onChange y)) (runCode engine st)"
  by (simp add: runCode_onChange) (simp add: onChange_def render_def runCode_def runCode_catch_def)

theorem edit_render_run_witness:
  "runCode ecma_Function (render (onChange (Some ''return 2 + 2;'') (CodePlayground [] fresh_page))) =
     Some (Returns \<lparr>code = ''return 2 + 2;'', code_state = ''return 2 + 2;'', output = ''4'',
       toasts = [ToastSuccess ''Code executed successfully!''], globals = fresh_page\<rparr>)
   \<and> runCode ecma_Function (render (onChange (Some ''while(true){}'') (CodePlayground [] fresh_page)))
       = None
   \<and> runCode ecma_Function
       (render (onChange (Some ''throw new Error('bad');'') (CodePlayground [] fresh_page))) =
     Some (Returns \<lparr>code = ''throw new Error('bad');'', code_state = ''throw new Error('bad');'',
       output = ''Error: bad'',
       toasts = [ToastError ''Error executing code''], globals = fresh_page\<rparr>)
   \<and> runCode ecma_Function (onChange (Some ''while(true){}'') (CodePlayground ''return 2 + 2;'' fresh_page)) =
     Some (Returns \<lparr>code = ''return 2 + 2;'', code_state = ''while(true){}'', output = ''4'',
       toasts = [ToastSuccess ''Code executed successfully!''], globals = fresh_page\<rparr>)"
proof -
  have val: "ecma_Function ''return 2 + 2;'' = Inr (\<lambda>g. Some (Normal (Number safe_4), g))"
    and loop: "ecma_Function ''while(true){}'' = Inr (js_while True)"
    and thr: "ecma_Function ''throw new Error('bad');''
      = Inr (\<lambda>g. Some (Throw (ErrorObject ''Error'' ''bad''), g))"
    by (simp_all add: ecma_Function_def)
  have plain: "runCode ecma_Function (CodePlayground ''return 2 + 2;'' fresh_page) =
     Some (Returns \<lparr>code = ''return 2 + 2;'', code_state = ''return 2 + 2;'', output = ''4'',
       toasts = [ToastSuccess ''Code executed successfully!''], globals = fresh_page\<rparr>)"
    by (simp add: runCode_def val CodePlayground_def js_String_safe_4)
  have c1: "runCode ecma_Function
        (render (onChange (Some ''return 2 + 2;'') (CodePlayground [] fresh_page))) =
     Some (Returns \<lparr>code = ''return 2 + 2;'', code_state = ''return 2 + 2;'', output = ''4'',
       toasts = [ToastSuccess ''Code executed successfully!''], globals = fresh_page\<rparr>)"
    using edit_render_run [of "''return 2 + 2;''" "CodePlayground [] fresh_page" ecma_Function
        "\<lambda>g. Some (Normal (Number safe_4), g)" "Number safe_4" fresh_page "''4''" fresh_page
        Undefined None]
    by (clarsimp simp: val js_String_safe_4 CodePlayground_def)
  have c2: "runCode ecma_Function
        (render (onChange (Some ''while(true){}'') (CodePlayground [] fresh_page))) = None"
    using edit_render_run [of "''while(true){}''" "CodePlayground [] fresh_page" ecma_Function
        "js_while True" Undefined fresh_page "[]" fresh_page Undefined None]
    by (clarsimp simp: loop js_while_True CodePlayground_def)
  have c3: "runCode ecma_Function
       (render (onChange (Some ''throw new Error('bad');'') (CodePlayground [] fresh_page))) =
     Some (Returns \<lparr>code = ''throw new Error('bad');'', code_state = ''throw new Error('bad');'',
       output = ''Error: bad'',
       toasts = [ToastError ''Error executing code''], globals = fresh_page\<rparr>)"
    using edit_render_run [of "''throw new Error('bad');''" "CodePlayground [] fresh_page"
        ecma_Function "\<lambda>g. Some (Throw (ErrorObject ''Error'' ''bad''), g)" Undefined fresh_page
        "''Error: bad''" fresh_page "ErrorObject ''Error'' ''bad''" None]
    by (clarsimp simp: thr js_String_ErrorObject CodePlayground_def)
  have c4: "runCode ecma_Function
        (onChange (Some ''while(true){}'') (CodePlayground ''return 2 + 2;'' fresh_page)) =
     Some (Returns \<lparr>code = ''return 2 + 2;'', code_state = ''while(true){}'', output = ''4'',
       toasts = [ToastSuccess ''Code executed successfully!''], globals = fresh_page\<rparr>)"
    using edit_render_run [of "[]" "CodePlayground ''return 2 + 2;'' fresh_page" ecma_Function
        "\<lambda>g. Some (Normal Undefined, g)" Undefined fresh_page "[]" fresh_page Undefined
        "Some ''while(true){}''"] plain
    by (clarsimp simp: onChange_def CodePlayground_def)
  from c1 c2 c3 c4 show ?thesis by simp
qed

subsection \<open>C10: copying\<close>

text \<open>
  C10 says that \<^verbatim>\<open>copyCode\<close> shows the success notification unconditionally. The handler
  reaches \<^verbatim>\<open>toast.success\<close> only after \<^verbatim>\<open>navigator.clipboard.writeText(code)\<close>, with no guard:
  on a page without \<^verbatim>\<open>navigator.clipboard\<close> the member access throws, the \<^verbatim>\<open>TypeError\<close> leaves
  \<^verbatim>\<open>copyCode\<close> and no notification is shown.
\<close>

theorem copyCode_no_clipboard_counterexample:
  "copyCode True (CodePlayground ''return 2 + 2;'' plain_http_page) =
     Escapes (ErrorObject ''TypeError'' ''Cannot read properties of undefined (reading 'writeText')'')
       (CodePlayground ''return 2 + 2;'' plain_http_page)
   \<and> toasts (CodePlayground ''return 2 + 2;'' plain_http_page) = []"
  by (simp add: copyCode_def CodePlayground_def plain_http_page_def)

text \<open>
  C10, as the code has it: on a page that has \<^verbatim>\<open>navigator.clipboard\<close>, \<^verbatim>\<open>copyCode\<close> returns
  with the success notification shown whether the write is fulfilled or rejected (the
  promise is never looked at), the clipboard holding the code in the first case and being
  as before in the second; and on every page it leaves the source buffer and the output
  unchanged.
\<close>

theorem copyCode_reports_success:
  "(clipboard (globals st) \<noteq> None \<longrightarrow>
      copyCode granted st =
        Returns (st\<lparr>globals := (if granted then (globals st)\<lparr>clipboard := Some (code st)\<rparr>
                                 else globals st),
                    toasts := toasts st @ [ToastSuccess ''Code copied to clipboard!'']\<rparr>))
   \<and> code (state_of (copyCode granted st)) = code st
   \<and> code_state (state_of (copyCode granted st)) = code_state st
   \<and> output (state_of (copyCode granted st)) = output st"
  by (cases "clipboard (globals st)") (simp_all add: copyCode_def writeText_def Let_def)

theorem copyCode_reports_success_witness:
  "clipboard (globals (CodePlayground ''return 2 + 2;'' fresh_page)) \<noteq> None
   \<and> copyCode False (CodePlayground ''return 2 + 2;'' fresh_page) =
       Returns \<lparr>code = ''return 2 + 2;'', code_state = ''return 2 + 2;'', output = [],
         toasts = [ToastSuccess ''Code copied to clipboard!''], globals = fresh_page\<rparr>
   \<and> copyCode True (CodePlayground ''return 2 + 2;'' fresh_page) =
       Returns \<lparr>code = ''return 2 + 2;'', code_state = ''return 2 + 2;'', output = [],
         toasts = [ToastSuccess ''Code copied to clipboard!''],
         globals = fresh_page\<lparr>clipboard := Some ''return 2 + 2;''\<rparr>\<rparr>"
  using copyCode_reports_success [of "CodePlayground ''return 2 + 2;'' fresh_page" False]
    copyCode_reports_success [of "CodePlayground ''return 2 + 2;'' fresh_page" True]
  by (simp add: CodePlayground_def fresh_page_def)

end
